theory Spec2Isabelle
  imports Main "HOL-Library.Char_ord"
begin

section \<open>Go values used by the package\<close>

text \<open>
  The package \<^verbatim>\<open>jaywt\<close> (file \<^verbatim>\<open>jaywt.go\<close>) extracts a JWT from an HTTP request, has
  the library \<^verbatim>\<open>jwt-go\<close> parse and verify it, and checks the declared algorithm.

  An \<^verbatim>\<open>interface{}\<close> value is \<open>INil\<close> (the nil interface), a string, an error, or a
  value of some other dynamic type (\<open>'v\<close>: numbers, booleans, slices, maps).  The type of
  the header map of a token is \<^verbatim>\<open>map[string]interface{}\<close>.

  An \<^verbatim>\<open>error\<close> is kept as the call that built it: \<^verbatim>\<open>errors.New(msg)\<close> or
  \<^verbatim>\<open>fmt.Errorf(format, args...)\<close> with its format string and its arguments, each argument
  being the \<^verbatim>\<open>interface{}\<close> value that Go passes to the variadic parameter.
\<close>

datatype 'v iface = INil | IString string | IError "'v error" | IOther 'v
  and 'v error = errors_New string | fmt_Errorf string "'v iface list"

text \<open>
  A call either returns or panics.  A Go function returning \<^verbatim>\<open>(T, error)\<close> is a function
  into \<open>'v failure + T\<close>: \<open>Inr x\<close> is \<^verbatim>\<open>return x, nil\<close>, \<open>Inl (Error e)\<close> is a return with
  the non-nil error \<open>e\<close> (the package never reads the other result then), and
  \<open>Inl Panic\<close> is a run-time panic, which every caller propagates.
\<close>

datatype 'v failure = Panic | Error "'v error"

subsection \<open>\<^verbatim>\<open>net/http\<close>: the request and \<^verbatim>\<open>Header.Get\<close>\<close>

text \<open>
  Of the request the package reads the header map only (\<^verbatim>\<open>map[string][]string\<close>).
  \<^verbatim>\<open>Header.Get(key)\<close> is the first value stored under the key, and \<^verbatim>\<open>""\<close> when there is
  none.  The key \<^verbatim>\<open>"Authorization"\<close> is already in canonical form.
\<close>

record Request =
  Header :: "string \<rightharpoonup> string list"

definition Header_Get :: "(string \<rightharpoonup> string list) \<Rightarrow> string \<Rightarrow> string" where
  "Header_Get h key = (case h key of None \<Rightarrow> '''' | Some [] \<Rightarrow> '''' | Some (v # _) \<Rightarrow> v)"

subsection \<open>\<^verbatim>\<open>strings\<close>: \<^verbatim>\<open>Split\<close> and \<^verbatim>\<open>ToLower\<close>\<close>

text \<open>
  \<^verbatim>\<open>strings.Split(s, sep)\<close> for a separator of one byte: the substrings of \<open>s\<close> between
  the occurrences of the separator, in order; one more substring than occurrences, so
  \<^verbatim>\<open>Split("", " ")\<close> is \<^verbatim>\<open>[""]\<close>.
\<close>

fun Split :: "string \<Rightarrow> char \<Rightarrow> string list" where
  "Split [] sep = [[]]"
| "Split (c # s) sep =
     (if c = sep then [] # Split s sep
      else (case Split s sep of [] \<Rightarrow> [[c]] | part # parts \<Rightarrow> (c # part) # parts))"

text \<open>
  \<^verbatim>\<open>strings.ToLower\<close> on bytes: \<^verbatim>\<open>if 'A' <= c && c <= 'Z' { c += 'a' - 'A' }\<close>, every other
  byte unchanged.  (On a string with non-ASCII runes Go maps runes instead; no rune
  outside \<^verbatim>\<open>A-Z\<close> is mapped to a letter of \<^verbatim>\<open>"bearer"\<close>, so the comparison below is the same.)
\<close>

definition lower_byte :: "char \<Rightarrow> char" where
  "lower_byte c =
     (if CHR ''A'' \<le> c \<and> c \<le> CHR ''Z'' then char_of (of_char c + (32::nat)) else c)"

definition ToLower :: "string \<Rightarrow> string" where
  "ToLower s = map lower_byte s"

subsection \<open>\<^verbatim>\<open>jwt-go\<close>: tokens, signing methods, parsing\<close>

text \<open>
  \<^verbatim>\<open>jwt.SigningMethod\<close> is an interface; the package calls its method \<^verbatim>\<open>Alg()\<close> only.
\<close>

record SigningMethod =
  Alg :: string

text \<open>\<^verbatim>\<open>jwt.Token\<close>; \<open>'c\<close> is the type of claims containers (\<^verbatim>\<open>jwt.Claims\<close>).\<close>

record ('c, 'v) Token =
  Raw :: string
  Method :: "SigningMethod option"
  Header :: "string \<rightharpoonup> 'v iface"
  Claims :: 'c
  Signature :: string
  Valid :: bool

text \<open>
  An index expression \<^verbatim>\<open>m[key]\<close> on a map of interfaces: the nil interface for a missing
  key (and for a nil map).
\<close>

definition index :: "(string \<rightharpoonup> 'v iface) \<Rightarrow> string \<Rightarrow> 'v iface" where
  "index m key = (case m key of None \<Rightarrow> INil | Some v \<Rightarrow> v)"

text \<open>
  The library is a parameter of the model: its two parse-and-verify operations, which
  take the raw token and the key function (\<open>'k\<close>, \<open>None\<close> when nil), and its variable
  \<^verbatim>\<open>jwt.SigningMethodHS256\<close>.  On success they return a non-nil token.
\<close>

record ('k, 'c, 'v) jwt =
  Parse :: "string \<Rightarrow> 'k option \<Rightarrow> 'v failure + ('c, 'v) Token"
  ParseWithClaims :: "string \<Rightarrow> 'c \<Rightarrow> 'k option \<Rightarrow> 'v failure + ('c, 'v) Token"
  SigningMethodHS256 :: SigningMethod

section \<open>The package\<close>

text \<open>\<^verbatim>\<open>type TokenExtractor func(r *http.Request) (string, error)\<close>\<close>

type_synonym 'v TokenExtractor = "Request \<Rightarrow> 'v failure + string"

text \<open>\<^verbatim>\<open>type Options struct\<close>: each field is nil (\<open>None\<close>) until set.\<close>

record ('k, 'v) Options =
  Keyfunc :: "'k option"
  Extractor :: "'v TokenExtractor option"
  SigningMethod :: "SigningMethod option"

text \<open>
  \<^verbatim>\<open>New\<close> takes a pointer \<^verbatim>\<open>*Options\<close> and \<^verbatim>\<open>Core\<close> keeps that pointer, so the \<^verbatim>\<open>Options\<close>
  structs live in a heap, a map from addresses to structs.  A pointer is nil or an
  address; dereferencing nil panics (and so does, in the model, an address the heap
  does not hold, which no Go program has).
\<close>

datatype ptr = NilPtr | Ptr nat

type_synonym ('k, 'v) heap = "nat \<rightharpoonup> ('k, 'v) Options"

definition load :: "('k, 'v) heap \<Rightarrow> ptr \<Rightarrow> ('k, 'v) Options option" where
  "load h p = (case p of NilPtr \<Rightarrow> None | Ptr a \<Rightarrow> h a)"

definition store :: "('k, 'v) heap \<Rightarrow> ptr \<Rightarrow> ('k, 'v) Options \<Rightarrow> ('k, 'v) heap" where
  "store h p x = (case p of NilPtr \<Rightarrow> h | Ptr a \<Rightarrow> h(a \<mapsto> x))"

text \<open>\<^verbatim>\<open>type Core struct { Options *Options }\<close>\<close>

record Core =
  Options :: ptr

text \<open>The message of the format error of \<^verbatim>\<open>FromAuthHeader\<close>.\<close>

definition format_message :: string where
  "format_message = ''Authorization header format must be 'Bearer <token>'' @ [CHR 0x27]"

text \<open>
  \<^verbatim>\<open>func FromAuthHeader(r *http.Request) (string, error)\<close>, the default extractor.
  \<^verbatim>\<open>parts[0]\<close> is read only when \<^verbatim>\<open>len(parts)\<close> is 2.
\<close>

definition FromAuthHeader :: "'v TokenExtractor" where
  "FromAuthHeader r =
     (let header = Header_Get (Request.Header r) ''Authorization'' in
      if header = '''' then Inr ''''
      else
        let parts = Split header CHR '' '' in
        if length parts \<noteq> 2 \<or> ToLower (parts ! 0) \<noteq> ''bearer''
        then Inl (Error (fmt_Errorf format_message []))
        else Inr (parts ! 1))"

text \<open>
  \<^verbatim>\<open>func New(o *Options) *Core\<close>: writes the defaults through the pointer and returns a
  \<^verbatim>\<open>Core\<close> holding the same pointer.  The result is the \<^verbatim>\<open>Core\<close> and the heap after the call.
\<close>

definition New ::
  "('k, 'c, 'v) jwt \<Rightarrow> ptr \<Rightarrow> ('k, 'v) heap \<Rightarrow> ('v failure + Core) \<times> ('k, 'v) heap" where
  "New lib o' h =
     (case load h o' of
        None \<Rightarrow> (Inl Panic, h)
      | Some opts \<Rightarrow>
          let h1 = (if Extractor opts = None
                    then store h o' (opts\<lparr>Extractor := Some FromAuthHeader\<rparr>) else h) in
          (case load h1 o' of
             None \<Rightarrow> (Inl Panic, h1)
           | Some opts1 \<Rightarrow>
               let h2 = (if SigningMethod opts1 = None
                         then store h1 o'
                                (opts1\<lparr>SigningMethod := Some (SigningMethodHS256 lib)\<rparr>)
                         else h1) in
               (Inr \<lparr>Options = o'\<rparr>, h2)))"

text \<open>\<^verbatim>\<open>func (m *Core) rawToken(r *http.Request) (string, error)\<close>\<close>

definition rawToken :: "('k, 'v) heap \<Rightarrow> Core \<Rightarrow> Request \<Rightarrow> 'v failure + string" where
  "rawToken h m r =
     (case load h (Options m) of
        None \<Rightarrow> Inl Panic
      | Some opts \<Rightarrow>
          (case Extractor opts of
             None \<Rightarrow> Inl Panic
           | Some extract \<Rightarrow>
               (case extract r of
                  Inl Panic \<Rightarrow> Inl Panic
                | Inl (Error err) \<Rightarrow>
                    Inl (Error (fmt_Errorf ''Error extracting token: %v'' [IError err]))
                | Inr raw \<Rightarrow>
                    if raw = '''' then Inl (Error (errors_New ''Token not found''))
                    else Inr raw)))"

text \<open>
  \<^verbatim>\<open>func (m *Core) validateToken(token *jwt.Token) error\<close>; \<open>Inr ()\<close> is \<^verbatim>\<open>return nil\<close>.
  The comparison \<^verbatim>\<open>alg != token.Header["alg"]\<close> is between a string and an interface
  value: they are equal when the interface holds a string, and that string is \<open>alg\<close>.
\<close>

definition validateToken ::
  "('k, 'v) heap \<Rightarrow> Core \<Rightarrow> ('c, 'v) Token \<Rightarrow> 'v failure + unit" where
  "validateToken h m token =
     (case load h (Options m) of
        None \<Rightarrow> Inl Panic
      | Some opts \<Rightarrow>
          (case SigningMethod opts of
             None \<Rightarrow> Inl Panic
           | Some method \<Rightarrow>
               let alg = Alg method in
               if IString alg \<noteq> index (Token.Header token) ''alg''
               then Inl (Error (fmt_Errorf ''Invalid token algorithm. Wanted %s, got %s''
                                  [IString alg, index (Token.Header token) ''alg'']))
               else Inr ()))"

text \<open>
  \<^verbatim>\<open>func (m *Core) Get(r *http.Request) (*jwt.Token, error)\<close>.  The result is paired
  with the heap after the call.
\<close>

definition Get ::
  "('k, 'c, 'v) jwt \<Rightarrow> Core \<Rightarrow> Request \<Rightarrow> ('k, 'v) heap
     \<Rightarrow> ('v failure + ('c, 'v) Token) \<times> ('k, 'v) heap" where
  "Get lib m r h =
     (case rawToken h m r of
        Inl err \<Rightarrow> (Inl err, h)
      | Inr raw \<Rightarrow>
          (case load h (Options m) of
             None \<Rightarrow> (Inl Panic, h)
           | Some opts \<Rightarrow>
               (case Parse lib raw (Keyfunc opts) of
                  Inl Panic \<Rightarrow> (Inl Panic, h)
                | Inl (Error err) \<Rightarrow>
                    (Inl (Error (fmt_Errorf ''Error parsing token: %v'' [IError err])), h)
                | Inr token \<Rightarrow>
                    (case validateToken h m token of
                       Inl err \<Rightarrow> (Inl err, h)
                     | Inr _ \<Rightarrow> (Inr token, h)))))"

text \<open>
  \<^verbatim>\<open>func (m *Core) GetWithClaims(r *http.Request, claims jwt.Claims) (*jwt.Token, error)\<close>
\<close>

definition GetWithClaims ::
  "('k, 'c, 'v) jwt \<Rightarrow> Core \<Rightarrow> Request \<Rightarrow> 'c \<Rightarrow> ('k, 'v) heap
     \<Rightarrow> ('v failure + ('c, 'v) Token) \<times> ('k, 'v) heap" where
  "GetWithClaims lib m r claims h =
     (case rawToken h m r of
        Inl err \<Rightarrow> (Inl err, h)
      | Inr raw \<Rightarrow>
          (case load h (Options m) of
             None \<Rightarrow> (Inl Panic, h)
           | Some opts \<Rightarrow>
               (case ParseWithClaims lib raw claims (Keyfunc opts) of
                  Inl Panic \<Rightarrow> (Inl Panic, h)
                | Inl (Error err) \<Rightarrow>
                    (Inl (Error (fmt_Errorf ''Error parsing token: %v'' [IError err])), h)
                | Inr token \<Rightarrow>
                    (case validateToken h m token of
                       Inl err \<Rightarrow> (Inl err, h)
                     | Inr _ \<Rightarrow> (Inr token, h)))))"

section \<open>Construction with the defaults written out\<close>

text \<open>
  The specification describes \<^verbatim>\<open>New\<close> by its effect: an unset extractor becomes the header
  extractor, an unset expected algorithm becomes HMAC-SHA-256, and the key resolver has
  no default.  \<open>explicit_defaults\<close> is that description, the options a caller would
  write to supply the two defaults explicitly; it is compared with \<open>New\<close> below.
\<close>

definition explicit_defaults :: "('k, 'c, 'v) jwt \<Rightarrow> ('k, 'v) Options \<Rightarrow> ('k, 'v) Options" where
  "explicit_defaults lib opts =
     opts\<lparr>Extractor := Some (case Extractor opts of None \<Rightarrow> FromAuthHeader | Some e \<Rightarrow> e),
          SigningMethod :=
            Some (case SigningMethod opts of None \<Rightarrow> SigningMethodHS256 lib | Some s \<Rightarrow> s)\<rparr>"

section \<open>Example configuration\<close>

text \<open>
  Concrete inputs for the examples: a request with one \<^verbatim>\<open>Authorization\<close> value, options
  with a key function, the header extractor and \<^verbatim>\<open>HS256\<close>, a token declaring a given
  algorithm, and a library that accepts the raw token \<^verbatim>\<open>abc.def.ghi\<close> as that token and
  rejects every other string.
\<close>

definition example_token :: "string \<Rightarrow> (unit, unit) Token" where
  "example_token alg =
     \<lparr>Raw = ''abc.def.ghi'', Method = Some \<lparr>Alg = alg\<rparr>,
      Header = [''typ'' \<mapsto> IString ''JWT'', ''alg'' \<mapsto> IString alg],
      Claims = (), Signature = ''ghi'', Valid = True\<rparr>"

definition example_jwt :: "string \<Rightarrow> (unit, unit, unit) jwt" where
  "example_jwt alg =
     \<lparr>Parse = (\<lambda>raw keyFunc.
        if raw = ''abc.def.ghi'' then Inr (example_token alg)
        else Inl (Error (errors_New ''signature is invalid''))),
      ParseWithClaims = (\<lambda>raw claims keyFunc.
        if raw = ''abc.def.ghi'' then Inr (example_token alg)
        else Inl (Error (errors_New ''signature is invalid''))),
      SigningMethodHS256 = \<lparr>Alg = ''HS256''\<rparr>\<rparr>"

definition example_options :: "(unit, unit) Options" where
  "example_options =
     \<lparr>Keyfunc = Some (), Extractor = Some FromAuthHeader,
      SigningMethod = Some \<lparr>Alg = ''HS256''\<rparr>\<rparr>"

definition example_request :: "string \<Rightarrow> Request" where
  "example_request v = \<lparr>Request.Header = [''Authorization'' \<mapsto> [v]]\<rparr>"

text \<open>Options that leave the extractor and the signing method unset.\<close>

definition unset_options :: "(unit, unit) Options" where
  "unset_options = \<lparr>Keyfunc = Some (), Extractor = None, SigningMethod = None\<rparr>"

text \<open>A token whose header has no \<^verbatim>\<open>alg\<close> entry.\<close>

definition token_without_alg :: "(unit, unit) Token" where
  "token_without_alg =
     \<lparr>Raw = ''abc.def.ghi'', Method = None, Header = [''typ'' \<mapsto> IString ''JWT''],
      Claims = (), Signature = ''ghi'', Valid = True\<rparr>"

section \<open>Properties of the library functions\<close>

lemma Split_not_Nil: "Split s sep \<noteq> []"
  by (induction s) (auto split: list.splits)

lemma length_Split: "length (Split s sep) = Suc (count_list s sep)"
  by (induction s) (auto split: list.splits simp: Split_not_Nil)

lemma Split_first: "Split s sep ! 0 = takeWhile (\<lambda>c. c \<noteq> sep) s"
  by (induction s) (auto split: list.splits simp: Split_not_Nil)

lemma Split_no_sep: "sep \<notin> set t \<Longrightarrow> Split t sep = [t]"
  by (induction t) auto

lemma Split_one_sep: "sep \<notin> set s \<Longrightarrow> Split (s @ sep # t) sep = s # Split t sep"
  by (induction s) auto

lemma lower_byte_space: "lower_byte c = CHR '' '' \<Longrightarrow> c = CHR '' ''"
proof (cases "CHR ''A'' \<le> c \<and> c \<le> CHR ''Z''")
  case False
  assume "lower_byte c = CHR '' ''"
  with False show ?thesis by (auto simp: lower_byte_def)
next
  case True
  assume "lower_byte c = CHR '' ''"
  with True have "char_of (of_char c + (32::nat)) = CHR '' ''"
    by (simp add: lower_byte_def)
  then have "(of_char (char_of (of_char c + (32::nat))) :: nat) = of_char CHR '' ''"
    by simp
  then have "(of_char c + 32) mod 256 = (32::nat)"
    by simp
  moreover from True have "65 \<le> (of_char c :: nat)" "(of_char c :: nat) \<le> 90"
    by (simp_all add: less_eq_char_def)
  then have "(of_char c + 32) mod 256 = (of_char c + 32 :: nat)"
    by simp
  ultimately show ?thesis using \<open>65 \<le> (of_char c :: nat)\<close> by simp
qed

lemma ToLower_bearer_no_space:
  assumes "ToLower s = ''bearer''"
  shows "CHR '' '' \<notin> set s"
proof
  assume "CHR '' '' \<in> set s"
  then have "lower_byte CHR '' '' \<in> set (ToLower s)"
    by (simp add: ToLower_def)
  moreover have "lower_byte CHR '' '' = CHR '' ''"
    by (simp add: lower_byte_def less_eq_char_def)
  ultimately show False using assms by simp
qed

lemma ToLower_Bearer: "ToLower ''Bearer'' = ''bearer''"
  by code_simp

lemma FromAuthHeader_scheme_token:
  assumes hdr: "Header_Get (Request.Header r) ''Authorization'' = scheme @ CHR '' '' # t"
    and scheme: "ToLower scheme = ''bearer''"
    and t: "CHR '' '' \<notin> set t"
  shows "FromAuthHeader r = Inr t"
proof -
  have "Split (scheme @ CHR '' '' # t) CHR '' '' = [scheme, t]"
    using ToLower_bearer_no_space [OF scheme] t
    by (simp add: Split_one_sep Split_no_sep)
  then show ?thesis
    using hdr scheme by (simp add: FromAuthHeader_def)
qed

section \<open>Properties of the helper methods\<close>

lemma rawToken_token:
  assumes "load h (Options m) = Some opts" and "Extractor opts = Some extract"
    and "extract r = Inr raw" and "raw \<noteq> ''''"
  shows "rawToken h m r = Inr raw"
  using assms by (simp add: rawToken_def)

lemma rawToken_empty:
  assumes "load h (Options m) = Some opts" and "Extractor opts = Some extract"
    and "extract r = Inr ''''"
  shows "rawToken h m r = Inl (Error (errors_New ''Token not found''))"
  using assms by (simp add: rawToken_def)

lemma validateToken_mismatch:
  assumes "load h (Options m) = Some opts" and "SigningMethod opts = Some sm"
    and "index (Token.Header token) ''alg'' \<noteq> IString (Alg sm)"
  shows "validateToken h m token =
           Inl (Error (fmt_Errorf ''Invalid token algorithm. Wanted %s, got %s''
                         [IString (Alg sm), index (Token.Header token) ''alg'']))"
  using assms by (auto simp: validateToken_def Let_def)

lemma validateToken_Inr:
  assumes "validateToken h m token = Inr u"
  shows "\<exists>opts sm. load h (Options m) = Some opts \<and> SigningMethod opts = Some sm
           \<and> Token.Header token ''alg'' = Some (IString (Alg sm))"
  using assms
  by (auto simp: validateToken_def Let_def index_def split: option.splits if_splits)

lemma New_Ptr:
  assumes "h a = Some opts"
  shows "New lib (Ptr a) h = (Inr \<lparr>Options = Ptr a\<rparr>, h(a \<mapsto> explicit_defaults lib opts))"
proof (cases opts)
  case (fields kf ex sm)
  with assms show ?thesis
    by (cases ex; cases sm)
       (simp_all add: New_def load_def store_def explicit_defaults_def Let_def map_upd_triv)
qed

lemma Get_load_cong:
  assumes "load h (Options m) = load g (Options m')"
  shows "fst (Get lib m r h) = fst (Get lib m' r g)"
  using assms
  by (simp add: Get_def rawToken_def validateToken_def
           split: option.splits sum.splits failure.splits)

lemma GetWithClaims_load_cong:
  assumes "load h (Options m) = load g (Options m')"
  shows "fst (GetWithClaims lib m r claims h) = fst (GetWithClaims lib m' r claims g)"
  using assms
  by (simp add: GetWithClaims_def rawToken_def validateToken_def
           split: option.splits sum.splits failure.splits)

lemma Get_heap: "snd (Get lib m r h) = h"
  by (simp add: Get_def split: option.splits sum.splits failure.splits)

lemma GetWithClaims_heap: "snd (GetWithClaims lib m r claims h) = h"
  by (simp add: GetWithClaims_def split: option.splits sum.splits failure.splits)

lemma load_store: "load h p = Some y \<Longrightarrow> load (store h p x) p = Some x"
  by (cases p) (simp_all add: load_def store_def)

lemma Get_token_not_found:
  assumes "load h (Options m) = Some opts" and "Extractor opts = Some extract"
    and "extract r = Inr ''''"
  shows "Get lib m r h = (Inl (Error (errors_New ''Token not found'')), h)"
  by (simp add: Get_def rawToken_empty [OF assms])

lemma GetWithClaims_token_not_found:
  assumes "load h (Options m) = Some opts" and "Extractor opts = Some extract"
    and "extract r = Inr ''''"
  shows "GetWithClaims lib m r claims h = (Inl (Error (errors_New ''Token not found'')), h)"
  by (simp add: GetWithClaims_def rawToken_empty [OF assms])

lemma Get_Inr:
  assumes "Get lib m r h = (Inr token, h')"
  shows "\<exists>u. validateToken h m token = Inr u"
  using assms
  by (auto simp: Get_def split: sum.splits option.splits failure.splits)

lemma GetWithClaims_Inr:
  assumes "GetWithClaims lib m r claims h = (Inr token, h')"
  shows "\<exists>u. validateToken h m token = Inr u"
  using assms
  by (auto simp: GetWithClaims_def split: sum.splits option.splits failure.splits)

lemma example_extract:
  "(FromAuthHeader (example_request ''Bearer abc.def.ghi'') :: unit failure + string)
     = Inr ''abc.def.ghi''"
  by code_simp

section \<open>The algorithm-conformance check\<close>

text \<open>
  C1.  When the extractor yields a non-empty raw token and the library's parse-and-verify
  call succeeds with a token whose header entry \<^verbatim>\<open>alg\<close> is not the string that the
  configured signing method's \<^verbatim>\<open>Alg()\<close> returns (the comparison is equality of strings,
  so \<^verbatim>\<open>hs256\<close> differs from \<^verbatim>\<open>HS256\<close>), both \<^verbatim>\<open>Get\<close> and \<^verbatim>\<open>GetWithClaims\<close> return
  the error \<^verbatim>\<open>Invalid token algorithm. Wanted %s, got %s\<close> with the expected and the
  received identifier as its arguments, and no token.
\<close>

theorem algorithm_mismatch_rejected:
  assumes cfg: "load h (Options m) = Some opts"
    and ex: "Extractor opts = Some extract" "extract r = Inr raw" "raw \<noteq> ''''"
    and expected: "SigningMethod opts = Some sm"
    and alg: "index (Token.Header token) ''alg'' \<noteq> IString (Alg sm)"
  shows "(Parse lib raw (Keyfunc opts) = Inr token \<longrightarrow>
            Get lib m r h =
              (Inl (Error (fmt_Errorf ''Invalid token algorithm. Wanted %s, got %s''
                             [IString (Alg sm), index (Token.Header token) ''alg''])), h))
       \<and> (ParseWithClaims lib raw claims (Keyfunc opts) = Inr token \<longrightarrow>
            GetWithClaims lib m r claims h =
              (Inl (Error (fmt_Errorf ''Invalid token algorithm. Wanted %s, got %s''
                             [IString (Alg sm), index (Token.Header token) ''alg''])), h))"
proof -
  note raw = rawToken_token [OF cfg ex]
  note bad = validateToken_mismatch [OF cfg expected alg]
  show ?thesis
    by (simp add: Get_def GetWithClaims_def raw bad cfg)
qed

theorem algorithm_mismatch_rejected_witness:
  "Get (example_jwt ''RS256'') \<lparr>Options = Ptr 0\<rparr> (example_request ''Bearer abc.def.ghi'')
       [0 \<mapsto> example_options]
     = (Inl (Error (fmt_Errorf ''Invalid token algorithm. Wanted %s, got %s''
                      [IString ''HS256'', IString ''RS256''])), [0 \<mapsto> example_options])
   \<and> GetWithClaims (example_jwt ''hs256'') \<lparr>Options = Ptr 0\<rparr>
       (example_request ''Bearer abc.def.ghi'') () [0 \<mapsto> example_options]
     = (Inl (Error (fmt_Errorf ''Invalid token algorithm. Wanted %s, got %s''
                      [IString ''HS256'', IString ''hs256''])), [0 \<mapsto> example_options])"
proof -
  have cfg: "load [0 \<mapsto> example_options] (Options \<lparr>Options = Ptr 0\<rparr>) = Some example_options"
    by (simp add: load_def)
  have ex: "Extractor example_options = Some FromAuthHeader"
    and sm: "SigningMethod example_options = Some \<lparr>Alg = ''HS256''\<rparr>"
    by (simp_all add: example_options_def)
  have ne: "''abc.def.ghi'' \<noteq> ''''" by simp
  have rs: "index (Token.Header (example_token ''RS256'')) ''alg'' \<noteq> IString (Alg \<lparr>Alg = ''HS256''\<rparr>)"
    and hs: "index (Token.Header (example_token ''hs256'')) ''alg'' \<noteq> IString (Alg \<lparr>Alg = ''HS256''\<rparr>)"
    by (simp_all add: example_token_def index_def)
  show ?thesis
    using algorithm_mismatch_rejected [OF cfg ex example_extract ne sm rs,
        of "example_jwt ''RS256''" "()"]
      algorithm_mismatch_rejected [OF cfg ex example_extract ne sm hs,
        of "example_jwt ''hs256''" "()"]
    by (simp add: example_jwt_def example_token_def index_def)
qed

section \<open>The default extractor\<close>

text \<open>
  C2.  Let \<open>v\<close> be the value that \<^verbatim>\<open>Header.Get("Authorization")\<close> returns.  \<^verbatim>\<open>FromAuthHeader\<close>
  returns the format error (message \<^verbatim>\<open>Authorization header format must be 'Bearer <token>'\<close>)
  exactly when \<open>v\<close> is not empty and either the number of spaces in \<open>v\<close> is not one or
  the part before the first space, lowercased, is not \<^verbatim>\<open>bearer\<close>; in the words of the
  code, when \<open>v\<close> is not empty and \<^verbatim>\<open>Split\<close> does not give two parts or the first part
  lowercased is not \<^verbatim>\<open>bearer\<close>.  The examples \<^verbatim>\<open>Token abc.def.ghi\<close> (fails) and
  \<^verbatim>\<open>bearer abc.def.ghi\<close> (succeeds) are evaluated after the theorem.
\<close>

theorem malformed_header_format_error:
  assumes "Header_Get (Request.Header r) ''Authorization'' = v"
  shows "((FromAuthHeader r :: 'v failure + string)
              = Inl (Error (fmt_Errorf format_message [])) \<longleftrightarrow>
            v \<noteq> '''' \<and> (count_list v CHR '' '' \<noteq> 1 \<or>
              ToLower (takeWhile (\<lambda>c. c \<noteq> CHR '' '') v) \<noteq> ''bearer''))
       \<and> (v \<noteq> '''' \<and> (length (Split v CHR '' '') \<noteq> 2 \<or>
              ToLower (Split v CHR '' '' ! 0) \<noteq> ''bearer'') \<longrightarrow>
            (FromAuthHeader r :: 'v failure + string)
              = Inl (Error (fmt_Errorf format_message [])))"
proof (cases "v = ''''")
  case True
  with assms show ?thesis by (simp add: FromAuthHeader_def)
next
  case False
  have "length (Split v CHR '' '') \<noteq> 2 \<longleftrightarrow> count_list v CHR '' '' \<noteq> 1"
    by (simp add: length_Split)
  with False assms show ?thesis
    by (simp add: FromAuthHeader_def Let_def Split_first)
qed

theorem malformed_header_format_error_witness:
  "(FromAuthHeader (example_request ''Token abc.def.ghi'') :: unit failure + string)
     = Inl (Error (fmt_Errorf format_message []))
   \<and> (FromAuthHeader (example_request ''bearer abc.def.ghi'') :: unit failure + string)
     \<noteq> Inl (Error (fmt_Errorf format_message []))
   \<and> (FromAuthHeader (example_request ''bearer abc.def.ghi'') :: unit failure + string)
     = Inr ''abc.def.ghi''
   \<and> (FromAuthHeader (example_request ''Bearer abc def'') :: unit failure + string)
     = Inl (Error (fmt_Errorf format_message []))"
proof -
  have get: "Header_Get (Request.Header (example_request v)) ''Authorization'' = v" for v
    by (simp add: example_request_def Header_Get_def)
  have token: "ToLower (takeWhile (\<lambda>c. c \<noteq> CHR '' '') ''Token abc.def.ghi'') \<noteq> ''bearer''"
    by code_simp
  have bearer: "ToLower (takeWhile (\<lambda>c. c \<noteq> CHR '' '') ''bearer abc.def.ghi'') = ''bearer''"
    by code_simp
  have ok: "(FromAuthHeader (example_request ''bearer abc.def.ghi'') :: unit failure + string)
     = Inr ''abc.def.ghi''"
    by code_simp
  show ?thesis
    using malformed_header_format_error [OF get, of "''Token abc.def.ghi''", where 'v = unit]
      malformed_header_format_error [OF get, of "''bearer abc.def.ghi''", where 'v = unit]
      malformed_header_format_error [OF get, of "''Bearer abc def''", where 'v = unit]
      token bearer ok
    by simp
qed

text \<open>
  C3.  When the \<^verbatim>\<open>Authorization\<close> header is absent (no entry, or an entry without
  values) or its first value is empty, \<^verbatim>\<open>FromAuthHeader\<close> returns the empty string and no
  error.  Whenever the configured extractor returns the empty string and no error,
  \<^verbatim>\<open>Get\<close> and \<^verbatim>\<open>GetWithClaims\<close> return the error \<^verbatim>\<open>errors.New("Token not found")\<close> and no
  token.
\<close>

theorem absent_token_not_found:
  fixes lib :: "('k, 'c, 'v) jwt"
  shows "((Request.Header r ''Authorization'' = None
            \<or> Request.Header r ''Authorization'' = Some []
            \<or> (\<exists>vs. Request.Header r ''Authorization'' = Some ('''' # vs))) \<longrightarrow>
          (FromAuthHeader r :: 'v failure + string) = Inr '''')
       \<and> (load h (Options m) = Some opts \<and> Extractor opts = Some extractor
            \<and> extractor r = Inr '''' \<longrightarrow>
          Get lib m r h = (Inl (Error (errors_New ''Token not found'')), h)
          \<and> GetWithClaims lib m r claims h
              = (Inl (Error (errors_New ''Token not found'')), h))"
proof -
  have "(FromAuthHeader r :: 'v failure + string) = Inr ''''"
    if "Request.Header r ''Authorization'' = None
          \<or> Request.Header r ''Authorization'' = Some []
          \<or> (\<exists>vs. Request.Header r ''Authorization'' = Some ('''' # vs))"
  proof -
    from that have "Header_Get (Request.Header r) ''Authorization'' = ''''"
      by (auto simp: Header_Get_def)
    then show ?thesis by (simp add: FromAuthHeader_def)
  qed
  then show ?thesis
    by (auto simp: Get_token_not_found GetWithClaims_token_not_found)
qed

theorem absent_token_not_found_witness:
  "(FromAuthHeader \<lparr>Request.Header = Map.empty\<rparr> :: unit failure + string) = Inr ''''
   \<and> Get (example_jwt ''HS256'') \<lparr>Options = Ptr 0\<rparr> \<lparr>Request.Header = Map.empty\<rparr>
         [0 \<mapsto> example_options]
       = (Inl (Error (errors_New ''Token not found'')), [0 \<mapsto> example_options])
   \<and> GetWithClaims (example_jwt ''HS256'') \<lparr>Options = Ptr 0\<rparr>
         \<lparr>Request.Header = Map.empty\<rparr> () [0 \<mapsto> example_options]
       = (Inl (Error (errors_New ''Token not found'')), [0 \<mapsto> example_options])
   \<and> (FromAuthHeader (example_request '''') :: unit failure + string) = Inr ''''"
proof -
  have cfg: "load [0 \<mapsto> example_options] (Options \<lparr>Options = Ptr 0\<rparr>) = Some example_options"
    by (simp add: load_def)
  have ex: "Extractor example_options = Some FromAuthHeader"
    by (simp add: example_options_def)
  have absent: "Request.Header \<lparr>Request.Header = Map.empty\<rparr> ''Authorization'' = None"
    by simp
  have empty: "Request.Header (example_request '''') ''Authorization'' = Some ('''' # [])"
    by (simp add: example_request_def)
  note a = absent_token_not_found [where r = "\<lparr>Request.Header = Map.empty\<rparr>"
      and h = "[0 \<mapsto> example_options]" and m = "\<lparr>Options = Ptr 0\<rparr>"
      and opts = example_options and extractor = FromAuthHeader
      and lib = "example_jwt ''HS256''" and claims = "()"]
  note b = absent_token_not_found [where r = "example_request ''''"
      and h = "[0 \<mapsto> example_options]" and m = "\<lparr>Options = Ptr 0\<rparr>"
      and opts = example_options and extractor = FromAuthHeader
      and lib = "example_jwt ''HS256''" and claims = "()"]
  from a absent have 1:
    "(FromAuthHeader \<lparr>Request.Header = Map.empty\<rparr> :: unit failure + string) = Inr ''''"
    by simp
  from b empty have 2:
    "(FromAuthHeader (example_request '''') :: unit failure + string) = Inr ''''"
    by simp
  from a cfg ex 1 have 3:
    "Get (example_jwt ''HS256'') \<lparr>Options = Ptr 0\<rparr> \<lparr>Request.Header = Map.empty\<rparr>
         [0 \<mapsto> example_options]
       = (Inl (Error (errors_New ''Token not found'')), [0 \<mapsto> example_options])
     \<and> GetWithClaims (example_jwt ''HS256'') \<lparr>Options = Ptr 0\<rparr>
         \<lparr>Request.Header = Map.empty\<rparr> () [0 \<mapsto> example_options]
       = (Inl (Error (errors_New ''Token not found'')), [0 \<mapsto> example_options])"
    by simp
  from 1 2 3 show ?thesis by simp
qed

text \<open>
  C4.  For the header value \<^verbatim>\<open>Bearer\<close>, one space, and a token \<open>t\<close> without a space,
  \<^verbatim>\<open>FromAuthHeader\<close> returns \<open>t\<close> itself.
\<close>

theorem bearer_token_verbatim:
  assumes "Header_Get (Request.Header r) ''Authorization'' = ''Bearer '' @ t"
    and "CHR '' '' \<notin> set t"
  shows "(FromAuthHeader r :: 'v failure + string) = Inr t"
proof -
  from assms(1) have "Header_Get (Request.Header r) ''Authorization'' = ''Bearer'' @ CHR '' '' # t"
    by simp
  then show ?thesis
    using ToLower_Bearer assms(2) by (rule FromAuthHeader_scheme_token)
qed

theorem bearer_token_verbatim_witness:
  "(FromAuthHeader (example_request (''Bearer '' @ ''eyJhbGciOiJIUzI1NiJ9.e30.XmNK3GpH3Ys_7wsY''))
      :: unit failure + string) = Inr ''eyJhbGciOiJIUzI1NiJ9.e30.XmNK3GpH3Ys_7wsY''"
proof -
  have get: "Header_Get (Request.Header (example_request v)) ''Authorization'' = v" for v
    by (simp add: example_request_def Header_Get_def)
  have nosp: "CHR '' '' \<notin> set ''eyJhbGciOiJIUzI1NiJ9.e30.XmNK3GpH3Ys_7wsY''"
    by simp
  show ?thesis
    using bearer_token_verbatim [OF get nosp, where 'v = unit] .
qed

text \<open>
  C8.  For a header value made of a scheme that lowercases to \<^verbatim>\<open>bearer\<close>, one space, and
  nothing else, \<^verbatim>\<open>Split\<close> gives two parts, the second empty; \<^verbatim>\<open>FromAuthHeader\<close> returns
  the empty string and no error, and with \<^verbatim>\<open>FromAuthHeader\<close> as the extractor both entry
  points return \<^verbatim>\<open>Token not found\<close>, not the format error.
\<close>

theorem bearer_without_token_not_found:
  fixes lib :: "('k, 'c, 'v) jwt"
  assumes hdr: "Header_Get (Request.Header r) ''Authorization'' = scheme @ '' ''"
    and scheme: "ToLower scheme = ''bearer''"
  shows "Split (scheme @ '' '') CHR '' '' = [scheme, '''']
       \<and> (FromAuthHeader r :: 'v failure + string) = Inr ''''
       \<and> (load h (Options m) = Some opts \<and> Extractor opts = Some FromAuthHeader \<longrightarrow>
            Get lib m r h = (Inl (Error (errors_New ''Token not found'')), h)
          \<and> GetWithClaims lib m r claims h
              = (Inl (Error (errors_New ''Token not found'')), h)
          \<and> fst (Get lib m r h) \<noteq> Inl (Error (fmt_Errorf format_message []))
          \<and> fst (GetWithClaims lib m r claims h)
              \<noteq> Inl (Error (fmt_Errorf format_message [])))"
proof -
  have parts: "Split (scheme @ '' '') CHR '' '' = [scheme, '''']"
    using ToLower_bearer_no_space [OF scheme] by (simp add: Split_one_sep)
  have "CHR '' '' \<notin> set ''''" by simp
  with hdr scheme have empty: "(FromAuthHeader r :: 'v failure + string) = Inr ''''"
    by (intro FromAuthHeader_scheme_token [where scheme = scheme]) simp_all
  show ?thesis
    using parts empty
    by (auto simp: Get_token_not_found GetWithClaims_token_not_found)
qed

theorem bearer_without_token_not_found_witness:
  "(FromAuthHeader (example_request ''Bearer '') :: unit failure + string) = Inr ''''
   \<and> Get (example_jwt ''HS256'') \<lparr>Options = Ptr 0\<rparr> (example_request ''Bearer '')
         [0 \<mapsto> example_options]
       = (Inl (Error (errors_New ''Token not found'')), [0 \<mapsto> example_options])
   \<and> GetWithClaims (example_jwt ''HS256'') \<lparr>Options = Ptr 0\<rparr>
         (example_request ''Bearer '') () [0 \<mapsto> example_options]
       = (Inl (Error (errors_New ''Token not found'')), [0 \<mapsto> example_options])"
proof -
  have cfg: "load [0 \<mapsto> example_options] (Options \<lparr>Options = Ptr 0\<rparr>) = Some example_options"
    by (simp add: load_def)
  have ex: "Extractor example_options = Some FromAuthHeader"
    by (simp add: example_options_def)
  have get: "Header_Get (Request.Header (example_request ''Bearer '')) ''Authorization''
               = ''Bearer'' @ '' ''"
    by (simp add: example_request_def Header_Get_def)
  show ?thesis
    using bearer_without_token_not_found [OF get ToLower_Bearer,
        where h = "[0 \<mapsto> example_options]" and m = "\<lparr>Options = Ptr 0\<rparr>"
        and opts = example_options and lib = "example_jwt ''HS256''" and claims = "()"]
      cfg ex
    by simp
qed

section \<open>Construction\<close>

text \<open>
  C5.  Let \<open>opts\<close> be the options at the address given to \<^verbatim>\<open>New\<close>, and let the options
  with the defaults written out (\<open>explicit_defaults\<close>: \<^verbatim>\<open>FromAuthHeader\<close> for an unset
  extractor, \<^verbatim>\<open>jwt.SigningMethodHS256\<close> for an unset signing method, everything else as in
  \<open>opts\<close>, the key function included) be at another address of any heap.  \<^verbatim>\<open>New\<close> succeeds
  on both, and the two \<^verbatim>\<open>Core\<close>s return the same result from \<^verbatim>\<open>Get\<close> on every request and
  from \<^verbatim>\<open>GetWithClaims\<close> on every request and claims container: after \<^verbatim>\<open>New\<close> both
  \<^verbatim>\<open>Core\<close>s point to the same options value.  The same holds for any \<^verbatim>\<open>Core\<close> whose pointer
  leads to the options with the defaults written out, however it was built.
\<close>

theorem New_defaults_as_explicit:
  fixes lib :: "('k, 'c, 'v) jwt"
  assumes unset: "h a = Some opts"
    and explicit: "g b = Some (explicit_defaults lib opts)"
  shows "\<exists>m1 h1 m2 g2.
           New lib (Ptr a) h = (Inr m1, h1) \<and> New lib (Ptr b) g = (Inr m2, g2)
         \<and> (\<forall>r. fst (Get lib m1 r h1) = fst (Get lib m2 r g2))
         \<and> (\<forall>r claims. fst (GetWithClaims lib m1 r claims h1)
                          = fst (GetWithClaims lib m2 r claims g2))
         \<and> (\<forall>m3 g3. load g3 (Options m3) = Some (explicit_defaults lib opts) \<longrightarrow>
               (\<forall>r. fst (Get lib m1 r h1) = fst (Get lib m3 r g3))
             \<and> (\<forall>r claims. fst (GetWithClaims lib m1 r claims h1)
                              = fst (GetWithClaims lib m3 r claims g3)))
         \<and> load h1 (Options m1) = Some (explicit_defaults lib opts)
         \<and> load g2 (Options m2) = Some (explicit_defaults lib opts)
         \<and> Keyfunc (explicit_defaults lib opts) = Keyfunc opts
         \<and> (Extractor opts = None \<longrightarrow>
               Extractor (explicit_defaults lib opts) = Some FromAuthHeader)
         \<and> (SigningMethod opts = None \<longrightarrow>
               SigningMethod (explicit_defaults lib opts) = Some (SigningMethodHS256 lib))
         \<and> (Extractor opts \<noteq> None \<longrightarrow>
               Extractor (explicit_defaults lib opts) = Extractor opts)
         \<and> (SigningMethod opts \<noteq> None \<longrightarrow>
               SigningMethod (explicit_defaults lib opts) = SigningMethod opts)"
proof -
  let ?e = "explicit_defaults lib opts"
  have idem: "explicit_defaults lib ?e = ?e"
    by (simp add: explicit_defaults_def)
  have n1: "New lib (Ptr a) h = (Inr \<lparr>Options = Ptr a\<rparr>, h(a \<mapsto> ?e))"
    using unset by (rule New_Ptr [where h = h and a = a and opts = opts])
  have n2: "New lib (Ptr b) g = (Inr \<lparr>Options = Ptr b\<rparr>, g(b \<mapsto> ?e))"
    using New_Ptr [where h = g and a = b and opts = "?e" and lib = lib] explicit
    by (simp add: idem)
  have l1: "load (h(a \<mapsto> ?e)) (Options \<lparr>Options = Ptr a\<rparr>) = Some ?e"
    and l2: "load (g(b \<mapsto> ?e)) (Options \<lparr>Options = Ptr b\<rparr>) = Some ?e"
    by (simp_all add: load_def)
  have same: "load (h(a \<mapsto> ?e)) (Options \<lparr>Options = Ptr a\<rparr>)
                = load (g(b \<mapsto> ?e)) (Options \<lparr>Options = Ptr b\<rparr>)"
    by (simp only: l1 l2)
  have fields: "Keyfunc ?e = Keyfunc opts"
    "Extractor opts = None \<longrightarrow> Extractor ?e = Some FromAuthHeader"
    "SigningMethod opts = None \<longrightarrow> SigningMethod ?e = Some (SigningMethodHS256 lib)"
    "Extractor opts \<noteq> None \<longrightarrow> Extractor ?e = Extractor opts"
    "SigningMethod opts \<noteq> None \<longrightarrow> SigningMethod ?e = SigningMethod opts"
    by (auto simp: explicit_defaults_def)
  have direct: "fst (Get lib \<lparr>Options = Ptr a\<rparr> r (h(a \<mapsto> ?e))) = fst (Get lib m3 r g3)"
    "fst (GetWithClaims lib \<lparr>Options = Ptr a\<rparr> r claims (h(a \<mapsto> ?e)))
       = fst (GetWithClaims lib m3 r claims g3)"
    if "load g3 (Options m3) = Some ?e" for m3 g3 r claims
  proof -
    from l1 that have "load (h(a \<mapsto> ?e)) (Options \<lparr>Options = Ptr a\<rparr>) = load g3 (Options m3)"
      by simp
    then show "fst (Get lib \<lparr>Options = Ptr a\<rparr> r (h(a \<mapsto> ?e))) = fst (Get lib m3 r g3)"
      and "fst (GetWithClaims lib \<lparr>Options = Ptr a\<rparr> r claims (h(a \<mapsto> ?e)))
             = fst (GetWithClaims lib m3 r claims g3)"
      by (rule Get_load_cong, rule GetWithClaims_load_cong)
  qed
  show ?thesis
    using fields direct
    by (simp add: n1 n2 load_def Get_load_cong [OF same] GetWithClaims_load_cong [OF same])
qed

theorem New_defaults_as_explicit_witness:
  "\<exists>m1 h1 m2 g2.
      New (example_jwt ''HS256'') (Ptr 0) [0 \<mapsto> unset_options] = (Inr m1, h1)
    \<and> New (example_jwt ''HS256'') (Ptr 1) [1 \<mapsto> example_options] = (Inr m2, g2)
    \<and> (\<forall>r. fst (Get (example_jwt ''HS256'') m1 r h1)
              = fst (Get (example_jwt ''HS256'') m2 r g2))
    \<and> (\<forall>r claims. fst (GetWithClaims (example_jwt ''HS256'') m1 r claims h1)
              = fst (GetWithClaims (example_jwt ''HS256'') m2 r claims g2))
    \<and> load h1 (Options m1) = Some example_options
    \<and> load g2 (Options m2) = Some example_options"
proof -
  have e: "explicit_defaults (example_jwt ''HS256'') unset_options = example_options"
    by (simp add: explicit_defaults_def unset_options_def example_options_def example_jwt_def)
  have unset: "[0 \<mapsto> unset_options] 0 = Some unset_options"
    by simp
  have explicit: "[1 \<mapsto> example_options] (1::nat)
                    = Some (explicit_defaults (example_jwt ''HS256'') unset_options)"
    by (simp add: e)
  show ?thesis
    using New_defaults_as_explicit [where h = "[0 \<mapsto> unset_options]" and a = 0
        and opts = unset_options and g = "[1 \<mapsto> example_options]" and b = 1
        and lib = "example_jwt ''HS256''", OF unset explicit]
    unfolding e by blast
qed

section \<open>Failure of the library\<close>

text \<open>
  C6.  When the extractor yields a non-empty raw token and the library's parse call
  returns an error \<open>err\<close>, the entry point returns
  \<^verbatim>\<open>fmt.Errorf("Error parsing token: %v", err)\<close>, the error that holds the library's error
  as its argument.  The result does not depend on the configured signing method: it is
  the same for every value of that field, nil included, where a call of
  \<^verbatim>\<open>validateToken\<close> would panic; so the algorithm check is not reached.
\<close>

theorem parse_failure_wrapped:
  fixes lib :: "('k, 'c, 'v) jwt"
  assumes cfg: "load h (Options m) = Some opts"
    and ex: "Extractor opts = Some extractor" "extractor r = Inr raw" "raw \<noteq> ''''"
  shows "(Parse lib raw (Keyfunc opts) = Inl (Error err) \<longrightarrow>
            Get lib m r h
              = (Inl (Error (fmt_Errorf ''Error parsing token: %v'' [IError err])), h)
          \<and> (\<forall>sm. fst (Get lib m r (store h (Options m) (opts\<lparr>SigningMethod := sm\<rparr>)))
              = Inl (Error (fmt_Errorf ''Error parsing token: %v'' [IError err]))))
       \<and> (ParseWithClaims lib raw claims (Keyfunc opts) = Inl (Error err) \<longrightarrow>
            GetWithClaims lib m r claims h
              = (Inl (Error (fmt_Errorf ''Error parsing token: %v'' [IError err])), h)
          \<and> (\<forall>sm. fst (GetWithClaims lib m r claims
                                (store h (Options m) (opts\<lparr>SigningMethod := sm\<rparr>)))
              = Inl (Error (fmt_Errorf ''Error parsing token: %v'' [IError err]))))"
proof -
  note raw = rawToken_token [OF cfg ex]
  have cfg': "load (store h (Options m) (opts\<lparr>SigningMethod := sm\<rparr>)) (Options m)
                = Some (opts\<lparr>SigningMethod := sm\<rparr>)" for sm
    by (rule load_store [OF cfg])
  have ex': "Extractor (opts\<lparr>SigningMethod := sm\<rparr>) = Some extractor" for sm
    using ex(1) by simp
  note raw' = rawToken_token [OF cfg' ex' ex(2,3)]
  show ?thesis
    by (simp add: Get_def GetWithClaims_def raw raw' cfg cfg')
qed

theorem parse_failure_wrapped_witness:
  "Get (example_jwt ''HS256'') \<lparr>Options = Ptr 0\<rparr> (example_request ''Bearer abc.def.xyz'')
       [0 \<mapsto> example_options]
     = (Inl (Error (fmt_Errorf ''Error parsing token: %v''
                      [IError (errors_New ''signature is invalid'')])),
        [0 \<mapsto> example_options])
   \<and> GetWithClaims (example_jwt ''HS256'') \<lparr>Options = Ptr 0\<rparr>
       (example_request ''Bearer abc.def.xyz'') () [0 \<mapsto> example_options]
     = (Inl (Error (fmt_Errorf ''Error parsing token: %v''
                      [IError (errors_New ''signature is invalid'')])),
        [0 \<mapsto> example_options])
   \<and> fst (Get (example_jwt ''HS256'') \<lparr>Options = Ptr 0\<rparr>
            (example_request ''Bearer abc.def.xyz'')
            [0 \<mapsto> example_options\<lparr>SigningMethod := None\<rparr>])
     = Inl (Error (fmt_Errorf ''Error parsing token: %v''
                      [IError (errors_New ''signature is invalid'')]))"
proof -
  have cfg: "load [0 \<mapsto> example_options] (Options \<lparr>Options = Ptr 0\<rparr>) = Some example_options"
    by (simp add: load_def)
  have ex: "Extractor example_options = Some FromAuthHeader"
    by (simp add: example_options_def)
  have raw: "(FromAuthHeader (example_request ''Bearer abc.def.xyz'') :: unit failure + string)
               = Inr ''abc.def.xyz''"
    by code_simp
  have ne: "''abc.def.xyz'' \<noteq> ''''" by simp
  show ?thesis
    using parse_failure_wrapped [OF cfg ex raw ne, where lib = "example_jwt ''HS256''"
        and err = "errors_New ''signature is invalid''" and claims = "()"]
    by (simp add: example_jwt_def store_def)
qed

section \<open>The two entry points\<close>

text \<open>
  C7.  \<^verbatim>\<open>GetWithClaims\<close> with a claims container is \<^verbatim>\<open>Get\<close> run against the library whose
  \<^verbatim>\<open>Parse\<close> is \<^verbatim>\<open>ParseWithClaims\<close> with that container: extraction, the empty-token check,
  the wrapping of errors and the algorithm check are the same.  Hence, when the two
  parse operations of the library agree for that container, the two entry points return
  the same result.
\<close>

theorem GetWithClaims_as_Get:
  fixes lib :: "('k, 'c, 'v) jwt"
  shows "GetWithClaims lib m r claims h
           = Get (lib\<lparr>Parse := \<lambda>raw. ParseWithClaims lib raw claims\<rparr>) m r h
       \<and> ((\<forall>raw keyFunc. ParseWithClaims lib raw claims keyFunc = Parse lib raw keyFunc) \<longrightarrow>
            GetWithClaims lib m r claims h = Get lib m r h)"
  by (simp add: Get_def GetWithClaims_def cong: sum.case_cong option.case_cong)

theorem GetWithClaims_as_Get_witness:
  "GetWithClaims (example_jwt ''HS256'') \<lparr>Options = Ptr 0\<rparr>
       (example_request ''Bearer abc.def.ghi'') () [0 \<mapsto> example_options]
     = Get (example_jwt ''HS256'') \<lparr>Options = Ptr 0\<rparr>
       (example_request ''Bearer abc.def.ghi'') [0 \<mapsto> example_options]
   \<and> Get (example_jwt ''HS256'') \<lparr>Options = Ptr 0\<rparr>
       (example_request ''Bearer abc.def.ghi'') [0 \<mapsto> example_options]
     = (Inr (example_token ''HS256''), [0 \<mapsto> example_options])"
proof -
  have agree: "\<forall>raw keyFunc. ParseWithClaims (example_jwt ''HS256'') raw () keyFunc
                 = Parse (example_jwt ''HS256'') raw keyFunc"
    by (simp add: example_jwt_def)
  have cfg: "load [0 \<mapsto> example_options] (Options \<lparr>Options = Ptr 0\<rparr>) = Some example_options"
    by (simp add: load_def)
  have ex: "Extractor example_options = Some FromAuthHeader"
    by (simp add: example_options_def)
  have ne: "''abc.def.ghi'' \<noteq> ''''" by simp
  have raw: "rawToken [0 \<mapsto> example_options] \<lparr>Options = Ptr 0\<rparr>
               (example_request ''Bearer abc.def.ghi'') = Inr ''abc.def.ghi''"
    by (rule rawToken_token [OF cfg ex example_extract ne])
  have get: "Get (example_jwt ''HS256'') \<lparr>Options = Ptr 0\<rparr>
       (example_request ''Bearer abc.def.ghi'') [0 \<mapsto> example_options]
     = (Inr (example_token ''HS256''), [0 \<mapsto> example_options])"
  proof -
    have valid: "validateToken [0 \<mapsto> example_options] \<lparr>Options = Ptr 0\<rparr>
                   (example_token ''HS256'') = Inr ()"
      by (simp add: validateToken_def load_def example_options_def example_token_def
            index_def)
    have parsed: "Parse (example_jwt ''HS256'') ''abc.def.ghi'' (Keyfunc example_options)
                    = Inr (example_token ''HS256'')"
      by (simp add: example_jwt_def)
    show ?thesis
      by (simp add: Get_def raw load_def parsed valid)
  qed
  from GetWithClaims_as_Get [where lib = "example_jwt ''HS256''" and claims = "()"
        and m = "\<lparr>Options = Ptr 0\<rparr>" and r = "example_request ''Bearer abc.def.ghi''"
        and h = "[0 \<mapsto> example_options]"] agree
  have "GetWithClaims (example_jwt ''HS256'') \<lparr>Options = Ptr 0\<rparr>
       (example_request ''Bearer abc.def.ghi'') () [0 \<mapsto> example_options]
     = Get (example_jwt ''HS256'') \<lparr>Options = Ptr 0\<rparr>
       (example_request ''Bearer abc.def.ghi'') [0 \<mapsto> example_options]"
    by blast
  with get show ?thesis
    by (simp only: simp_thms)
qed

section \<open>Tokens without a declared algorithm\<close>

text \<open>
  C9.  With a signing method configured, \<^verbatim>\<open>validateToken\<close> on a token whose header map
  has no \<^verbatim>\<open>alg\<close> entry returns the mismatch error, whose second argument is the nil
  interface; it neither panics nor returns nil, and \<^verbatim>\<open>Get\<close> and \<^verbatim>\<open>GetWithClaims\<close> return that
  error when the library hands them such a token.  Whenever \<^verbatim>\<open>Get\<close> or \<^verbatim>\<open>GetWithClaims\<close>
  returns a token, a signing method is configured and the header's \<^verbatim>\<open>alg\<close> entry is the
  string that its \<^verbatim>\<open>Alg()\<close> returns.
\<close>

theorem missing_alg_rejected:
  fixes lib :: "('k, 'c, 'v) jwt" and token :: "('c, 'v) Token"
  shows "(load h (Options m) = Some opts \<and> SigningMethod opts = Some sm
            \<and> Token.Header token ''alg'' = None \<longrightarrow>
          validateToken h m token
            = Inl (Error (fmt_Errorf ''Invalid token algorithm. Wanted %s, got %s''
                            [IString (Alg sm), INil])))
       \<and> (load h (Options m) = Some opts \<and> SigningMethod opts = Some sm
            \<and> Token.Header token ''alg'' = None
            \<and> Extractor opts = Some extractor \<and> extractor r = Inr raw \<and> raw \<noteq> ''''
            \<longrightarrow>
          (Parse lib raw (Keyfunc opts) = Inr token \<longrightarrow>
             Get lib m r h
               = (Inl (Error (fmt_Errorf ''Invalid token algorithm. Wanted %s, got %s''
                                [IString (Alg sm), INil])), h))
        \<and> (ParseWithClaims lib raw claims (Keyfunc opts) = Inr token \<longrightarrow>
             GetWithClaims lib m r claims h
               = (Inl (Error (fmt_Errorf ''Invalid token algorithm. Wanted %s, got %s''
                                [IString (Alg sm), INil])), h)))
       \<and> (Get lib m r h = (Inr token, h') \<or> GetWithClaims lib m r claims h = (Inr token, h')
            \<longrightarrow>
          (\<exists>opts sm. load h (Options m) = Some opts \<and> SigningMethod opts = Some sm
             \<and> Token.Header token ''alg'' = Some (IString (Alg sm))))"
proof -
  have missing: "validateToken h m token
            = Inl (Error (fmt_Errorf ''Invalid token algorithm. Wanted %s, got %s''
                            [IString (Alg sm), INil]))"
    if "load h (Options m) = Some opts \<and> SigningMethod opts = Some sm
          \<and> Token.Header token ''alg'' = None"
  proof -
    from that have cfg: "load h (Options m) = Some opts"
      and expected: "SigningMethod opts = Some sm"
      and none: "Token.Header token ''alg'' = None"
      by simp_all
    from none have nil: "index (Token.Header token) ''alg'' = INil"
      by (simp add: index_def)
    then have "index (Token.Header token) ''alg'' \<noteq> IString (Alg sm)"
      by simp
    from validateToken_mismatch [OF cfg expected this] nil show ?thesis
      by simp
  qed
  have returned: "\<exists>opts sm. load h (Options m) = Some opts
      \<and> SigningMethod opts = Some sm
      \<and> Token.Header token ''alg'' = Some (IString (Alg sm))"
    if "Get lib m r h = (Inr token, h') \<or> GetWithClaims lib m r claims h = (Inr token, h')"
  proof -
    from that have "\<exists>u. validateToken h m token = Inr u"
    proof
      assume "Get lib m r h = (Inr token, h')"
      then show ?thesis by (rule Get_Inr)
    next
      assume "GetWithClaims lib m r claims h = (Inr token, h')"
      then show ?thesis by (rule GetWithClaims_Inr)
    qed
    then obtain u where "validateToken h m token = Inr u" ..
    then show ?thesis by (rule validateToken_Inr)
  qed
  have entry: "(Parse lib raw (Keyfunc opts) = Inr token \<longrightarrow>
             Get lib m r h
               = (Inl (Error (fmt_Errorf ''Invalid token algorithm. Wanted %s, got %s''
                                [IString (Alg sm), INil])), h))
        \<and> (ParseWithClaims lib raw claims (Keyfunc opts) = Inr token \<longrightarrow>
             GetWithClaims lib m r claims h
               = (Inl (Error (fmt_Errorf ''Invalid token algorithm. Wanted %s, got %s''
                                [IString (Alg sm), INil])), h))"
    if "load h (Options m) = Some opts \<and> SigningMethod opts = Some sm
          \<and> Token.Header token ''alg'' = None
          \<and> Extractor opts = Some extractor \<and> extractor r = Inr raw \<and> raw \<noteq> ''''"
  proof -
    from that have cfg: "load h (Options m) = Some opts"
      and ex: "Extractor opts = Some extractor" "extractor r = Inr raw" "raw \<noteq> ''''"
      and rest: "load h (Options m) = Some opts \<and> SigningMethod opts = Some sm
          \<and> Token.Header token ''alg'' = None"
      by simp_all
    note raw = rawToken_token [OF cfg ex]
    note bad = missing [OF rest]
    show ?thesis
      by (simp add: Get_def GetWithClaims_def raw bad cfg)
  qed
  show ?thesis
  proof (intro conjI)
    show "load h (Options m) = Some opts \<and> SigningMethod opts = Some sm
            \<and> Token.Header token ''alg'' = None \<longrightarrow>
          validateToken h m token
            = Inl (Error (fmt_Errorf ''Invalid token algorithm. Wanted %s, got %s''
                            [IString (Alg sm), INil]))"
      by (rule impI) (rule missing)
  next
    show "load h (Options m) = Some opts \<and> SigningMethod opts = Some sm
            \<and> Token.Header token ''alg'' = None
            \<and> Extractor opts = Some extractor \<and> extractor r = Inr raw \<and> raw \<noteq> ''''
            \<longrightarrow>
          (Parse lib raw (Keyfunc opts) = Inr token \<longrightarrow>
             Get lib m r h
               = (Inl (Error (fmt_Errorf ''Invalid token algorithm. Wanted %s, got %s''
                                [IString (Alg sm), INil])), h))
        \<and> (ParseWithClaims lib raw claims (Keyfunc opts) = Inr token \<longrightarrow>
             GetWithClaims lib m r claims h
               = (Inl (Error (fmt_Errorf ''Invalid token algorithm. Wanted %s, got %s''
                                [IString (Alg sm), INil])), h))"
      by (rule impI) (rule entry)
  next
    show "Get lib m r h = (Inr token, h') \<or> GetWithClaims lib m r claims h = (Inr token, h')
            \<longrightarrow>
          (\<exists>opts sm. load h (Options m) = Some opts \<and> SigningMethod opts = Some sm
             \<and> Token.Header token ''alg'' = Some (IString (Alg sm)))"
      by (rule impI) (rule returned)
  qed
qed

theorem missing_alg_rejected_witness:
  "validateToken [0 \<mapsto> example_options] \<lparr>Options = Ptr 0\<rparr> token_without_alg
     = Inl (Error (fmt_Errorf ''Invalid token algorithm. Wanted %s, got %s''
                     [IString ''HS256'', INil]))
   \<and> Token.Header (example_token ''HS256'') ''alg'' = Some (IString ''HS256'')"
proof -
  have cfg: "load [0 \<mapsto> example_options] (Options \<lparr>Options = Ptr 0\<rparr>) = Some example_options"
    by (simp add: load_def)
  have sm: "SigningMethod example_options = Some \<lparr>Alg = ''HS256''\<rparr>"
    by (simp add: example_options_def)
  have none: "Token.Header token_without_alg ''alg'' = None"
    by (simp add: token_without_alg_def)
  have ex: "Extractor example_options = Some FromAuthHeader"
    by (simp add: example_options_def)
  have ne: "''abc.def.ghi'' \<noteq> ''''" by simp
  have raw: "rawToken [0 \<mapsto> example_options] \<lparr>Options = Ptr 0\<rparr>
               (example_request ''Bearer abc.def.ghi'') = Inr ''abc.def.ghi''"
    by (rule rawToken_token [OF cfg ex example_extract ne])
  have valid: "validateToken [0 \<mapsto> example_options] \<lparr>Options = Ptr 0\<rparr>
                 (example_token ''HS256'') = Inr ()"
    by (simp add: validateToken_def load_def example_options_def example_token_def
          index_def)
  have parsed: "Parse (example_jwt ''HS256'') ''abc.def.ghi'' (Keyfunc example_options)
                  = Inr (example_token ''HS256'')"
    by (simp add: example_jwt_def)
  have get: "Get (example_jwt ''HS256'') \<lparr>Options = Ptr 0\<rparr>
       (example_request ''Bearer abc.def.ghi'') [0 \<mapsto> example_options]
     = (Inr (example_token ''HS256''), [0 \<mapsto> example_options])"
    by (simp add: Get_def raw load_def parsed valid)
  note inst = missing_alg_rejected [where h = "[0 \<mapsto> example_options]"
      and m = "\<lparr>Options = Ptr 0\<rparr>" and opts = example_options
      and sm = "\<lparr>Alg = ''HS256''\<rparr>" and lib = "example_jwt ''HS256''"
      and r = "example_request ''Bearer abc.def.ghi''" and claims = "()"
      and h' = "[0 \<mapsto> example_options]"]
  from inst [where token = token_without_alg] cfg sm none
  have 1: "validateToken [0 \<mapsto> example_options] \<lparr>Options = Ptr 0\<rparr> token_without_alg
     = Inl (Error (fmt_Errorf ''Invalid token algorithm. Wanted %s, got %s''
                     [IString ''HS256'', INil]))"
    by simp
  from inst [where token = "example_token ''HS256''"] get
  have "\<exists>opts sm. load [0 \<mapsto> example_options] (Options \<lparr>Options = Ptr 0\<rparr>) = Some opts
          \<and> SigningMethod opts = Some sm
          \<and> Token.Header (example_token ''HS256'') ''alg'' = Some (IString (Alg sm))"
    by simp
  with cfg sm have 2: "Token.Header (example_token ''HS256'') ''alg'' = Some (IString ''HS256'')"
    by auto
  from 1 2 show ?thesis by (simp only: simp_thms)
qed

section \<open>Effects on the options\<close>

text \<open>
  C10.  \<^verbatim>\<open>New\<close> on the address \<open>a\<close> of an \<^verbatim>\<open>Options\<close> struct returns a \<^verbatim>\<open>Core\<close> whose
  \<^verbatim>\<open>Options\<close> field is that same address, and a heap in which the struct at \<open>a\<close> has its
  \<^verbatim>\<open>Extractor\<close> and \<^verbatim>\<open>SigningMethod\<close> fields non-nil: the defaults where they were nil, the
  caller's values otherwise; \<^verbatim>\<open>Keyfunc\<close> and every other address are unchanged.  \<^verbatim>\<open>Get\<close> and
  \<^verbatim>\<open>GetWithClaims\<close> return the heap they were given.
\<close>

theorem New_writes_through_pointer:
  fixes lib :: "('k, 'c, 'v) jwt"
  assumes "h a = Some opts"
  shows "\<exists>m h' opts'.
           New lib (Ptr a) h = (Inr m, h') \<and> Options m = Ptr a \<and> h' a = Some opts'
         \<and> Extractor opts' \<noteq> None \<and> SigningMethod opts' \<noteq> None
         \<and> (Extractor opts = None \<longrightarrow> Extractor opts' = Some FromAuthHeader)
         \<and> (SigningMethod opts = None \<longrightarrow>
               SigningMethod opts' = Some (SigningMethodHS256 lib))
         \<and> (Extractor opts \<noteq> None \<longrightarrow> Extractor opts' = Extractor opts)
         \<and> (SigningMethod opts \<noteq> None \<longrightarrow> SigningMethod opts' = SigningMethod opts)
         \<and> Keyfunc opts' = Keyfunc opts
         \<and> (\<forall>b. b \<noteq> a \<longrightarrow> h' b = h b)
         \<and> (\<forall>r claims. snd (Get lib m r h') = h'
               \<and> snd (GetWithClaims lib m r claims h') = h')
         \<and> (\<forall>m' r claims g. snd (Get lib m' r g) = g
               \<and> snd (GetWithClaims lib m' r claims g) = g)"
proof -
  let ?e = "explicit_defaults lib opts"
  have n: "New lib (Ptr a) h = (Inr \<lparr>Options = Ptr a\<rparr>, h(a \<mapsto> ?e))"
    using assms by (rule New_Ptr [where h = h and a = a and opts = opts])
  have fields: "Extractor ?e \<noteq> None" "SigningMethod ?e \<noteq> None"
    "Extractor opts = None \<longrightarrow> Extractor ?e = Some FromAuthHeader"
    "SigningMethod opts = None \<longrightarrow> SigningMethod ?e = Some (SigningMethodHS256 lib)"
    "Extractor opts \<noteq> None \<longrightarrow> Extractor ?e = Extractor opts"
    "SigningMethod opts \<noteq> None \<longrightarrow> SigningMethod ?e = SigningMethod opts"
    "Keyfunc ?e = Keyfunc opts"
    by (auto simp: explicit_defaults_def)
  show ?thesis
    using fields by (simp add: n Get_heap GetWithClaims_heap)
qed

theorem New_writes_through_pointer_witness:
  "New (example_jwt ''HS256'') (Ptr 0) [0 \<mapsto> unset_options]
     = (Inr \<lparr>Options = Ptr 0\<rparr>, [0 \<mapsto> example_options])
   \<and> (\<exists>m h' opts'.
         New (example_jwt ''HS256'') (Ptr 0) [0 \<mapsto> unset_options] = (Inr m, h')
       \<and> Options m = Ptr 0 \<and> h' 0 = Some opts'
       \<and> Extractor opts' = Some FromAuthHeader
       \<and> SigningMethod opts' = Some \<lparr>Alg = ''HS256''\<rparr>)"
proof -
  have unset: "[0 \<mapsto> unset_options] 0 = Some unset_options"
    by simp
  have none: "Extractor unset_options = None" "SigningMethod unset_options = None"
    by (simp_all add: unset_options_def)
  have hs: "SigningMethodHS256 (example_jwt ''HS256'') = \<lparr>Alg = ''HS256''\<rparr>"
    by (simp add: example_jwt_def)
  have new: "New (example_jwt ''HS256'') (Ptr 0) [0 \<mapsto> unset_options]
     = (Inr \<lparr>Options = Ptr 0\<rparr>, [0 \<mapsto> example_options])"
    by (simp add: New_def load_def store_def unset_options_def example_options_def
          example_jwt_def)
  from New_writes_through_pointer [where h = "[0 \<mapsto> unset_options]" and a = 0
        and opts = unset_options and lib = "example_jwt ''HS256''", OF unset] none hs
  have "\<exists>m h' opts'.
         New (example_jwt ''HS256'') (Ptr 0) [0 \<mapsto> unset_options] = (Inr m, h')
       \<and> Options m = Ptr 0 \<and> h' 0 = Some opts'
       \<and> Extractor opts' = Some FromAuthHeader
       \<and> SigningMethod opts' = Some \<lparr>Alg = ''HS256''\<rparr>"
    by auto
  with new show ?thesis by (simp only: simp_thms)
qed

end
